theory Spec2Isabelle
  imports Main "HOL-Library.Char_ord" "HOL-Library.List_Lexorder"
begin

section \<open>Data model\<close>

text \<open>
  The API types of package \<open>api\<close> are used by the sources under verification but declared
  elsewhere. The records below hold the fields the verified functions read or write; the
  status has one more field, for what the comparison of two status values sees beyond them.
\<close>

type_synonym ServerGroup = string

record Condition =
  CondType :: string
  CondStatus :: bool

record MemberStatus =
  ID :: string
  PodName :: string
  PersistentVolumeClaimName :: string
  Conditions :: "Condition list"

datatype DeploymentState =
    DeploymentStateNone
  | DeploymentStateRunning
  | DeploymentStateFailed
  | DeploymentStateOther string

text \<open>
  The status type is declared outside the verified sources, and \<open>updateCRStatus\<close> compares
  two status values in full with \<open>reflect.DeepEqual\<close>. Besides the fields that the verified
  functions read or write, the record therefore has the field \<open>Rest\<close>: it stands for
  everything else that \<open>reflect.DeepEqual\<close> sees in a status value, that is the further
  fields of the type and whether a slice is nil or empty (a nil and an empty slice hold the
  same elements, and \<open>reflect.DeepEqual\<close> tells them apart). Two status values that agree
  in state, reason and members and differ in this way differ in \<open>Rest\<close>.
\<close>

record DeploymentStatus =
  State :: DeploymentState
  Reason :: string
  Members :: "(ServerGroup \<times> MemberStatus list) list"
  Rest :: nat

record ServerGroupSpec =
  StorageClassName :: string

record 'mode DeploymentSpec =
  Mode :: 'mode
  Agents :: ServerGroupSpec
  DBServers :: ServerGroupSpec
  Single :: ServerGroupSpec

record 'mode ArangoDeployment =
  Name :: string
  Namespace :: string
  ResourceVersion :: nat
  Spec :: "'mode DeploymentSpec"
  Status :: DeploymentStatus

text \<open>
  The predicates on the deployment mode (\<open>mode.HasAgents()\<close>, \<open>mode.HasDBServers()\<close>,
  \<open>mode.HasSingleServers()\<close>) are declared outside the verified sources; they are taken as
  parameters, so every result below holds for any definition of them.
\<close>

record 'mode ModeAPI =
  HasAgents :: "'mode \<Rightarrow> bool"
  HasDBServers :: "'mode \<Rightarrow> bool"
  HasSingleServers :: "'mode \<Rightarrow> bool"

section \<open>Errors\<close>

text \<open>
  Go errors as values. \<open>StatusError\<close> is an error of the CRUD transport, which the spec
  classifies exactly as NotFound, Conflict or other. \<open>ErrorString\<close> is what \<open>fmt.Errorf\<close>
  returns for a format without an error-wrapping verb: a new error that holds the formatted
  message and nothing else. \<open>Masked\<close> is the result of \<open>maskAny\<close>.
\<close>

datatype StatusReason = StatusReasonNotFound | StatusReasonConflict | StatusReasonOther

datatype error =
    StatusError StatusReason string
  | ErrorString string
  | Masked error

text \<open>\<open>err.Error()\<close>: the message of an error.\<close>

fun Error :: "error \<Rightarrow> string" where
  "Error (StatusError r msg) = msg"
| "Error (ErrorString msg) = msg"
| "Error (Masked e) = Error e"

text \<open>\<open>fmt.Errorf(prefix + "%v", err)\<close>: the verb \<open>%v\<close> prints the message of \<open>err\<close>.\<close>

definition Errorf_v :: "string \<Rightarrow> error \<Rightarrow> error" where
  "Errorf_v prefix err = ErrorString (prefix @ Error err)"

text \<open>
  Modelled from the spec: \<open>maskAny\<close>, \<open>k8sutil.IsNotFound\<close> and \<open>k8sutil.IsConflict\<close> are
  missing from the sources. The spec (external interfaces) has the transport's errors
  "classified into at least: NotFound, Conflict, Other" and requires "this classification
  being exact": an error is NotFound (Conflict) when it is the transport's NotFound (Conflict)
  error. Masking keeps the masked error, and the classification looks through it, so that
  \<open>IsNotFound (maskAny e) = IsNotFound e\<close>.
\<close>

definition maskAny :: "error \<Rightarrow> error" where
  "maskAny err = Masked err"

fun Cause :: "error \<Rightarrow> error" where
  "Cause (Masked e) = Cause e"
| "Cause (StatusError r msg) = StatusError r msg"
| "Cause (ErrorString msg) = ErrorString msg"

definition IsNotFound :: "error \<Rightarrow> bool" where
  "IsNotFound err =
     (case Cause err of StatusError r msg \<Rightarrow> r = StatusReasonNotFound | _ \<Rightarrow> False)"

definition IsConflict :: "error \<Rightarrow> bool" where
  "IsConflict err =
     (case Cause err of StatusError r msg \<Rightarrow> r = StatusReasonConflict | _ \<Rightarrow> False)"

section \<open>The deployment and its collaborators\<close>

text \<open>
  The client of the backing store (\<open>deps.DatabaseCRCli\<close>) is an external collaborator. Its
  answers are an oracle: the reply to the \<open>k\<close>-th \<open>Update\<close> (\<open>Get\<close>) request, which may depend
  on the request. The requests made so far are logged; the length of a log is the number of
  requests of that kind.
\<close>

record 'mode CRClient =
  UpdateReply :: "nat \<Rightarrow> 'mode ArangoDeployment \<Rightarrow> error + 'mode ArangoDeployment"
  GetReply :: "nat \<Rightarrow> string \<Rightarrow> string \<Rightarrow> error + 'mode ArangoDeployment"
  updateLog :: "'mode ArangoDeployment list"
  getLog :: "(string \<times> string) list"

definition Update_request ::
  "'mode CRClient \<Rightarrow> 'mode ArangoDeployment \<Rightarrow> (error + 'mode ArangoDeployment) \<times> 'mode CRClient" where
  "Update_request c update =
     (UpdateReply c (length (updateLog c)) update, c\<lparr>updateLog := updateLog c @ [update]\<rparr>)"

definition Get_request ::
  "'mode CRClient \<Rightarrow> string \<Rightarrow> string \<Rightarrow> (error + 'mode ArangoDeployment) \<times> 'mode CRClient" where
  "Get_request c ns name =
     (GetReply c (length (getLog c)) ns name, c\<lparr>getLog := getLog c @ [(ns, name)]\<rparr>)"

datatype logLevel = LevelInfo | LevelWarn | LevelError

record 'mode Dependencies =
  Log :: "(logLevel \<times> string) list"
  DatabaseCRCli :: "'mode CRClient"

text \<open>\<open>deploymentEventType\<close> is a string type with four declared constants.\<close>

type_synonym deploymentEventType = string

definition eventArangoDeploymentUpdated :: deploymentEventType where
  "eventArangoDeploymentUpdated = ''ArangoDeploymentUpdated''"

definition eventPodAdded :: deploymentEventType where
  "eventPodAdded = ''PodAdded''"

definition eventPodUpdated :: deploymentEventType where
  "eventPodUpdated = ''PodUpdated''"

definition eventPodDeleted :: deploymentEventType where
  "eventPodDeleted = ''PodDeleted''"

record 'mode deploymentEvent =
  Type :: deploymentEventType
  Deployment :: "'mode ArangoDeployment option"
  Pod :: "string option"

definition deploymentEventQueueSize :: nat where
  "deploymentEventQueueSize = 100"

text \<open>
  Modelled from the spec: package \<open>trigger\<close> is missing from the sources. The debounced trigger
  holds at most one pending wake-up: \<open>Trigger()\<close> "marks a wake-up pending" and is idempotent;
  the channel of \<open>Done()\<close> is ready while a wake-up is pending, and receiving from it consumes
  the wake-up.
\<close>

record Trigger =
  pending :: bool

definition Trigger_Trigger :: "Trigger \<Rightarrow> Trigger" where
  "Trigger_Trigger t = t\<lparr>pending := True\<rparr>"

definition Trigger_receive :: "Trigger \<Rightarrow> Trigger" where
  "Trigger_receive t = t\<lparr>pending := False\<rparr>"

text \<open>
  The in-process state of a deployment. \<open>eventCh\<close> is the buffered channel (oldest event
  first); \<open>stopCh\<close> is \<open>True\<close> once the stop channel is closed.
\<close>

record 'mode Deployment =
  apiObject :: "'mode ArangoDeployment"
  status :: DeploymentStatus
  deps :: "'mode Dependencies"
  eventCh :: "'mode deploymentEvent list"
  stopCh :: bool
  inspectTrigger :: Trigger

text \<open>
  \<open>New\<close>: the validation of the spec is declared outside the verified sources and is a
  parameter. The two goroutines that \<open>New\<close> starts are modelled by the functions of the
  loop below.
\<close>

definition New ::
  "('mode DeploymentSpec \<Rightarrow> error option) \<Rightarrow> 'mode Dependencies \<Rightarrow> 'mode ArangoDeployment
     \<Rightarrow> error + 'mode Deployment" where
  "New Validate deps0 obj =
     (case Validate (Spec obj) of
        Some err \<Rightarrow> Inl (maskAny err)
      | None \<Rightarrow>
          Inr \<lparr>apiObject = obj, status = Status obj, deps = deps0, eventCh = [],
               stopCh = False, inspectTrigger = \<lparr>pending = False\<rparr>\<rparr>)"

definition logMsg :: "logLevel \<Rightarrow> string \<Rightarrow> 'mode Deployment \<Rightarrow> 'mode Deployment" where
  "logMsg lvl msg d = d\<lparr>deps := (deps d)\<lparr>Log := Log (deps d) @ [(lvl, msg)]\<rparr>\<rparr>"

definition setCli :: "'mode CRClient \<Rightarrow> 'mode Deployment \<Rightarrow> 'mode Deployment" where
  "setCli c d = d\<lparr>deps := (deps d)\<lparr>DatabaseCRCli := c\<rparr>\<rparr>"

section \<open>Sending events\<close>

text \<open>
  \<open>Delete\<close> closes the stop channel; closing a closed channel panics in Go (\<open>Inl\<close>).
\<close>

definition Delete :: "'mode Deployment \<Rightarrow> string + 'mode Deployment" where
  "Delete d =
     (let d = logMsg LevelInfo ''deployment is deleted by user'' d
      in if stopCh d then Inl ''close of closed channel'' else Inr (d\<lparr>stopCh := True\<rparr>))"

text \<open>
  The warning threshold of \<open>send\<close> is \<open>int(float64(ecap)*0.8)\<close>. The capacity is the constant
  100; the double nearest to 0.8 is \<open>3602879701896397 / 2^52\<close>, its product with 100 lies
  between 80 and 81, and the conversion to \<open>int\<close> truncates: the threshold is 80, which the
  integer expression below computes.
\<close>

definition almostFullThreshold :: "nat \<Rightarrow> nat" where
  "almostFullThreshold ecap = (ecap * 3602879701896397) div 4503599627370496"

text \<open>
  \<open>send\<close> is a \<open>select\<close> over two communications. The result lists every way the call can
  return: by the send on \<open>eventCh\<close>, possible when the buffer has room, followed by the
  occupancy check; and by the receive on \<open>stopCh\<close>, possible once it is closed. When both are
  possible Go chooses one of them; when none is, the list is empty and the call blocks.
\<close>

definition send :: "'mode Deployment \<Rightarrow> 'mode deploymentEvent \<Rightarrow> 'mode Deployment list" where
  "send d ev =
     (if length (eventCh d) < deploymentEventQueueSize
      then [let d' = d\<lparr>eventCh := eventCh d @ [ev]\<rparr>;
                l = length (eventCh d');
                ecap = deploymentEventQueueSize
            in if l > almostFullThreshold ecap
               then logMsg LevelWarn ''event queue buffer is almost full'' d'
               else d']
      else [])
     @ (if stopCh d then [d] else [])"

definition Update :: "'mode Deployment \<Rightarrow> 'mode ArangoDeployment \<Rightarrow> 'mode Deployment list" where
  "Update d obj =
     send d \<lparr>Type = eventArangoDeploymentUpdated, Deployment = Some obj, Pod = None\<rparr>"

section \<open>Publishing the status\<close>

text \<open>
  \<open>reflect.DeepEqual\<close> on two status values: every field is compared, \<open>Rest\<close> included.
\<close>

definition DeepEqual :: "DeploymentStatus \<Rightarrow> DeploymentStatus \<Rightarrow> bool" where
  "DeepEqual a b = (State a = State b \<and> Reason a = Reason b \<and> Members a = Members b
                     \<and> Rest a = Rest b)"

definition updateCRStatus :: "'mode Deployment \<Rightarrow> error option \<times> 'mode Deployment" where
  "updateCRStatus d =
     (if DeepEqual (Status (apiObject d)) (status d) then (None, d)
      else
        let update = (apiObject d)\<lparr>Status := status d\<rparr>
        in case Update_request (DatabaseCRCli (deps d)) update of
             (Inl err, c) \<Rightarrow>
               (Some (maskAny (Errorf_v ''failed to update ArangoDeployment status: '' err)),
                setCli c d)
           | (Inr newAPIObject, c) \<Rightarrow>
               (None, (setCli c d)\<lparr>apiObject := newAPIObject\<rparr>))"

text \<open>The closure \<open>op\<close> of \<open>reportFailedStatus\<close>; the deployment it captures is its state.\<close>

definition reportFailedStatus_op :: "'mode Deployment \<Rightarrow> error option \<times> 'mode Deployment" where
  "reportFailedStatus_op d0 =
     (let d = d0\<lparr>status := (status d0)\<lparr>State := DeploymentStateFailed\<rparr>\<rparr>
      in case updateCRStatus d of
           (None, d) \<Rightarrow> (None, d)
         | (Some err, d) \<Rightarrow>
             if IsNotFound err then (None, d)
             else if \<not> IsConflict err
             then (Some (maskAny err), logMsg LevelWarn ''retry report status: fail to update'' d)
             else
               (case Get_request (DatabaseCRCli (deps d)) (Namespace (apiObject d))
                       (Name (apiObject d)) of
                  (Inl err, c) \<Rightarrow>
                    if IsNotFound err then (None, setCli c d)
                    else (Some (maskAny err),
                          logMsg LevelWarn ''retry report status: fail to get latest version''
                            (setCli c d))
                | (Inr depl, c) \<Rightarrow>
                    (Some (maskAny (ErrorString ''retry needed'')),
                     (setCli c d)\<lparr>apiObject := depl\<rparr>)))"

text \<open>
  Modelled from the spec: \<open>retry.Retry\<close> is missing from the sources. It "repeatedly invokes
  operation until it returns success or maxElapsedTime has elapsed since the first attempt".
  Elapsed time is not part of the state; the bound is the number \<open>n\<close> of further attempts
  that begin before the time has elapsed. The first attempt is always made.
\<close>

fun Retry :: "('s \<Rightarrow> error option \<times> 's) \<Rightarrow> nat \<Rightarrow> 's \<Rightarrow> error option \<times> 's" where
  "Retry operation 0 s = operation s"
| "Retry operation (Suc n) s =
     (case operation s of
        (None, s') \<Rightarrow> (None, s')
      | (Some err, s') \<Rightarrow> Retry operation n s')"

text \<open>
  \<open>reportFailedStatus\<close> drops the result of \<open>Retry\<close>. The first argument is the number of
  further attempts that fit into the bound of 365 days.
\<close>

definition reportFailedStatus :: "nat \<Rightarrow> 'mode Deployment \<Rightarrow> 'mode Deployment" where
  "reportFailedStatus n d =
     (let d = logMsg LevelInfo ''deployment failed. Reporting failed reason...'' d
      in snd (Retry reportFailedStatus_op n d))"

text \<open>\<open>failOnError\<close> writes its message to the global logger, which is not part of the state.\<close>

definition failOnError :: "nat \<Rightarrow> error \<Rightarrow> string \<Rightarrow> 'mode Deployment \<Rightarrow> 'mode Deployment" where
  "failOnError n err msg d =
     reportFailedStatus n (d\<lparr>status := (status d)\<lparr>Reason := Error err\<rparr>\<rparr>)"

section \<open>The control loop\<close>

text \<open>
  The collaborators the loop calls (\<open>createServices\<close>, \<open>createInitialMembers\<close>, \<open>ensurePVCs\<close>,
  \<open>ensurePods\<close>, \<open>inspectPods\<close>) and the events client are defined outside the verified
  sources. They are parameters: each step takes the deployment and returns its error, if
  any, and the deployment as the step leaves it; \<open>EventsCreate\<close> is the error, if any, of
  recording an event.
\<close>

type_synonym Event = "string \<times> error"

record 'mode Collaborators =
  createServices :: "'mode Deployment \<Rightarrow> error option \<times> 'mode Deployment"
  createInitialMembers :: "'mode Deployment \<Rightarrow> error option \<times> 'mode Deployment"
  ensurePVCs :: "'mode Deployment \<Rightarrow> error option \<times> 'mode Deployment"
  ensurePods :: "'mode Deployment \<Rightarrow> error option \<times> 'mode Deployment"
  inspectPods :: "'mode Deployment \<Rightarrow> error option \<times> 'mode Deployment"
  EventsCreate :: "Event \<Rightarrow> error option"

text \<open>
  What \<open>run\<close> did before its loop, in order: the startup steps it called and whether it
  assigned the state \<open>Running\<close>. This history is kept beside the deployment, out of the
  collaborators' reach.
\<close>

datatype runAction =
    CalledCreateServices
  | CalledCreateInitialMembers
  | CalledEnsurePVCs
  | CalledEnsurePods
  | SetStateRunning

datatype runPhase = Returned | Serving

text \<open>
  The part of \<open>run\<close> before the \<open>for\<close> loop. \<open>Returned\<close>: \<open>run\<close> has returned; \<open>Serving\<close>: it
  has reached the event-serving loop. \<open>n\<close> is the retry bound of \<open>reportFailedStatus\<close>.
\<close>

definition run_startup ::
  "'mode Collaborators \<Rightarrow> nat \<Rightarrow> 'mode Deployment \<Rightarrow> runAction list \<times> runPhase \<times> 'mode Deployment" where
  "run_startup co n d0 =
     (case createServices co d0 of
        (Some err, d) \<Rightarrow>
          ([CalledCreateServices], Returned, failOnError n err ''Failed to create services'' d)
      | (None, d) \<Rightarrow>
     (case createInitialMembers co d of
        (Some err, d) \<Rightarrow>
          ([CalledCreateServices, CalledCreateInitialMembers], Returned,
           failOnError n err ''Failed to create initial members'' d)
      | (None, d) \<Rightarrow>
     (case ensurePVCs co d of
        (Some err, d) \<Rightarrow>
          ([CalledCreateServices, CalledCreateInitialMembers, CalledEnsurePVCs], Returned,
           failOnError n err ''Failed to create persistent volume claims'' d)
      | (None, d) \<Rightarrow>
     (case ensurePods co d of
        (Some err, d) \<Rightarrow>
          ([CalledCreateServices, CalledCreateInitialMembers, CalledEnsurePVCs,
            CalledEnsurePods], Returned,
           failOnError n err ''Failed to create pods'' d)
      | (None, d) \<Rightarrow>
          (let d = d\<lparr>status := (status d)\<lparr>State := DeploymentStateRunning\<rparr>\<rparr>;
               (err, d) = updateCRStatus d;
               d = (case err of
                      Some e \<Rightarrow> logMsg LevelWarn ''update initial CR status failed'' d
                    | None \<Rightarrow> d);
               d = logMsg LevelInfo ''start running...'' d
           in ([CalledCreateServices, CalledCreateInitialMembers, CalledEnsurePVCs,
                CalledEnsurePods, SetStateRunning], Serving, d))))))"

definition handleArangoDeploymentUpdatedEvent ::
  "'mode Deployment \<Rightarrow> 'mode deploymentEvent \<Rightarrow> error option \<times> 'mode Deployment" where
  "handleArangoDeploymentUpdatedEvent d event = (None, d)"

definition createEvent :: "'mode Collaborators \<Rightarrow> Event \<Rightarrow> 'mode Deployment \<Rightarrow> 'mode Deployment" where
  "createEvent co evt d =
     (case EventsCreate co evt of
        Some err \<Rightarrow> logMsg LevelError ''Failed to record event'' d
      | None \<Rightarrow> d)"

text \<open>How one iteration of the loop ends: the loop goes on, \<open>run\<close> returns, or it panics.\<close>

datatype loopResult = Continue | Return | Panic string

text \<open>The body of \<open>case event := <-d.eventCh\<close>: the switch on the event type.\<close>

definition run_event ::
  "nat \<Rightarrow> 'mode Deployment \<Rightarrow> 'mode deploymentEvent \<Rightarrow> loopResult \<times> 'mode Deployment" where
  "run_event n d event =
     (if Type event = eventArangoDeploymentUpdated then
        (case handleArangoDeploymentUpdatedEvent d event of
           (Some err, d) \<Rightarrow> (Return, failOnError n err ''Failed to handle deployment update'' d)
         | (None, d) \<Rightarrow> (Continue, d))
      else if Type event = eventPodAdded \<or> Type event = eventPodUpdated
              \<or> Type event = eventPodDeleted then
        (Continue, d\<lparr>inspectTrigger := Trigger_Trigger (inspectTrigger d)\<rparr>)
      else (Panic (''unknown event type'' @ Type event), d))"

text \<open>The body of \<open>case <-d.inspectTrigger.Done()\<close>.\<close>

definition run_inspect :: "'mode Collaborators \<Rightarrow> 'mode Deployment \<Rightarrow> 'mode Deployment" where
  "run_inspect co d =
     (let (err, d) = inspectPods co d;
          d = (case err of
                 Some e \<Rightarrow> createEvent co (''Pod inspection failed'', e) d
               | None \<Rightarrow> d);
          (err, d) = ensurePods co d;
          d = (case err of
                 Some e \<Rightarrow> createEvent co (''Pod creation failed'', e) d
               | None \<Rightarrow> d)
      in d)"

text \<open>The body of \<open>case <-time.After(inspectionInterval)\<close>.\<close>

definition run_timer :: "'mode Deployment \<Rightarrow> 'mode Deployment" where
  "run_timer d = d\<lparr>inspectTrigger := Trigger_Trigger (inspectTrigger d)\<rparr>"

datatype selectCase = CaseStop | CaseEvent | CaseInspect

text \<open>
  One iteration of the \<open>for\<close> loop, for the communications that are ready when the \<open>select\<close>
  is entered: every case Go may choose, with the outcome of its body. The timer of this
  iteration has just been created and is not among them.
\<close>

definition run_select ::
  "'mode Collaborators \<Rightarrow> nat \<Rightarrow> 'mode Deployment \<Rightarrow> (selectCase \<times> loopResult \<times> 'mode Deployment) list" where
  "run_select co n d =
     (if stopCh d then [(CaseStop, Return, d)] else [])
     @ (case eventCh d of
          [] \<Rightarrow> []
        | event # rest \<Rightarrow> [(CaseEvent, run_event n (d\<lparr>eventCh := rest\<rparr>) event)])
     @ (if pending (inspectTrigger d)
        then [(CaseInspect, Continue,
               run_inspect co (d\<lparr>inspectTrigger := Trigger_receive (inspectTrigger d)\<rparr>))]
        else [])"

section \<open>The loop in time\<close>

text \<open>
  Time in seconds. \<open>time.After(inspectionInterval)\<close> is evaluated when the \<open>select\<close> is
  entered, so every iteration has a timer of its own that fires \<open>inspectionInterval\<close> after
  the iteration began. A configuration holds the time at which the current iteration begins,
  the deployment, the events that producers will send later (with the time of the send, in
  ascending order), the times at which the timer case ran, and how the loop ended, if it did.
  Bodies of cases take no time.
\<close>

definition inspectionInterval :: nat where
  "inspectionInterval = 60"

record 'mode timedRun =
  now :: nat
  dep :: "'mode Deployment"
  arrivals :: "(nat \<times> 'mode deploymentEvent) list"
  timerFired :: "nat list"
  ended :: "loopResult option"

definition afterCase :: "'mode timedRun \<Rightarrow> nat \<Rightarrow> loopResult \<times> 'mode Deployment \<Rightarrow> 'mode timedRun" where
  "afterCase cfg t r =
     cfg\<lparr>now := t, dep := snd r, ended := (if fst r = Continue then None else Some (fst r))\<rparr>"

text \<open>
  One iteration in time. If a communication is ready at once, the \<open>select\<close> takes one of the
  ready cases. Otherwise it waits for the first of: the next event sent (received as soon as
  it is sent) and the timer of this iteration; when both happen at the same time, either
  case may run.
\<close>

definition run_timed_step ::
  "'mode Collaborators \<Rightarrow> nat \<Rightarrow> 'mode timedRun \<Rightarrow> 'mode timedRun list" where
  "run_timed_step co n cfg =
     (let d = dep cfg;
          deadline = now cfg + inspectionInterval;
          timerCase = cfg\<lparr>now := deadline, dep := run_timer d,
                         timerFired := timerFired cfg @ [deadline]\<rparr>
      in if ended cfg \<noteq> None then [cfg]
         else if run_select co n d \<noteq> []
         then map (\<lambda>(c, r). afterCase cfg (now cfg) r) (run_select co n d)
         else (case arrivals cfg of
                 [] \<Rightarrow> [timerCase]
               | (t, event) # rest \<Rightarrow>
                   (if max t (now cfg) \<le> deadline
                    then [afterCase (cfg\<lparr>arrivals := rest\<rparr>) (max t (now cfg)) (run_event n d event)]
                    else [])
                   @ (if deadline \<le> max t (now cfg) then [timerCase] else [])))"

text \<open>All configurations that \<open>k\<close> iterations can lead to.\<close>

fun run_timed ::
  "'mode Collaborators \<Rightarrow> nat \<Rightarrow> nat \<Rightarrow> 'mode timedRun \<Rightarrow> 'mode timedRun list" where
  "run_timed co n 0 cfg = [cfg]"
| "run_timed co n (Suc k) cfg = concat (map (run_timed co n k) (run_timed_step co n cfg))"

section \<open>Read accessors (pod counts and storage classes)\<close>

definition ConditionTypeReady :: string where
  "ConditionTypeReady = ''Ready''"

text \<open>
  Modelled from the spec: \<open>Conditions.IsTrue\<close> is missing from the sources. A member carries
  "a set of timestamped condition flags (e.g. Ready)"; a condition type is true when the list
  holds a condition of that type whose flag is set.
\<close>

definition IsTrue :: "Condition list \<Rightarrow> string \<Rightarrow> bool" where
  "IsTrue cs t = list_ex (\<lambda>c. CondType c = t \<and> CondStatus c) cs"

text \<open>
  Modelled from the spec: \<open>ForeachServerGroup\<close> is missing from the sources. The status holds
  a "per-role-group list of MemberStatus records"; the callback is run on every role group in
  order, and the first error a callback returns ends the iteration. The callback is a closure
  over local variables of its caller; they are threaded through as the state \<open>'s\<close>.
\<close>

fun ForeachServerGroup ::
  "(ServerGroup \<Rightarrow> MemberStatus list \<Rightarrow> 's \<Rightarrow> 'e option \<times> 's) \<Rightarrow>
   (ServerGroup \<times> MemberStatus list) list \<Rightarrow> 's \<Rightarrow> 'e option \<times> 's" where
  "ForeachServerGroup cb [] s = (None, s)"
| "ForeachServerGroup cb ((grp, lst) # rest) s =
     (case cb grp lst s of
        (Some e, s') \<Rightarrow> (Some e, s')
      | (None, s') \<Rightarrow> ForeachServerGroup cb rest s')"

text \<open>
  Modelled from the spec: \<open>GetStatus\<close> and \<open>GetSpec\<close> are missing from the sources. The read
  accessors are "pure projections over the last-synchronized status": \<open>GetStatus\<close> yields the
  status of the deployment (its second result is dropped by every caller here) and \<open>GetSpec\<close>
  the spec of the cached object.
\<close>

definition GetStatus :: "'mode Deployment \<Rightarrow> DeploymentStatus" where
  "GetStatus d = status d"

definition GetSpec :: "'mode Deployment \<Rightarrow> 'mode DeploymentSpec" where
  "GetSpec d = Spec (apiObject d)"

text \<open>The body of the \<open>for _, m := range list\<close> loop of \<open>PodCount\<close>.\<close>

fun PodCount_loop :: "MemberStatus list \<Rightarrow> int \<Rightarrow> int" where
  "PodCount_loop [] count = count"
| "PodCount_loop (m # ms) count =
     PodCount_loop ms (if PodName m \<noteq> '''' then count + 1 else count)"

definition PodCount :: "'mode Deployment \<Rightarrow> int" where
  "PodCount d =
     (let st = GetStatus d
      in snd (ForeachServerGroup
                (\<lambda>grp lst count. (None :: unit option, PodCount_loop lst count))
                (Members st) 0))"

text \<open>The body of the loop of \<open>ReadyPodCount\<close>, with its \<open>continue\<close> on an empty pod name.\<close>

fun ReadyPodCount_loop :: "MemberStatus list \<Rightarrow> int \<Rightarrow> int" where
  "ReadyPodCount_loop [] count = count"
| "ReadyPodCount_loop (m # ms) count =
     (if PodName m = '''' then ReadyPodCount_loop ms count
      else if IsTrue (Conditions m) ConditionTypeReady then ReadyPodCount_loop ms (count + 1)
      else ReadyPodCount_loop ms count)"

definition ReadyPodCount :: "'mode Deployment \<Rightarrow> int" where
  "ReadyPodCount d =
     (let st = GetStatus d
      in snd (ForeachServerGroup
                (\<lambda>grp lst count. (None :: unit option, ReadyPodCount_loop lst count))
                (Members st) 0))"

text \<open>All member records of a status, across the role groups.\<close>

definition allMembers :: "DeploymentStatus \<Rightarrow> MemberStatus list" where
  "allMembers st = concat (map snd (Members st))"

text \<open>
  \<open>StorageClasses\<close>: the Go map \<open>scNames\<close> with empty-struct values is a set of keys, kept
  here as a list without duplicates (\<open>List.insert\<close> adds a key only if it is absent). Go
  ranges over a map in an unspecified order; the list order stands for one such order, and
  \<open>sort.Strings\<close> orders the keys bytewise lexicographically afterwards.
\<close>

definition GetStorageClassName :: "ServerGroupSpec \<Rightarrow> string" where
  "GetStorageClassName g = StorageClassName g"

definition StorageClasses :: "'mode ModeAPI \<Rightarrow> 'mode Deployment \<Rightarrow> string list" where
  "StorageClasses api d =
     (let scNames = [];
          spec = GetSpec d;
          mode = Mode spec;
          scNames = (if HasAgents api mode
                     then List.insert (GetStorageClassName (Agents spec)) scNames else scNames);
          scNames = (if HasDBServers api mode
                     then List.insert (GetStorageClassName (DBServers spec)) scNames else scNames);
          scNames = (if HasSingleServers api mode
                     then List.insert (GetStorageClassName (Single spec)) scNames else scNames);
          result = scNames
      in sort result)"

section \<open>Concrete inputs\<close>

text \<open>
  A store client that answers from two scripts, request by request, and reports an
  unclassified error once a script is used up.
\<close>

definition scriptedClient ::
  "(error + unit ArangoDeployment) list \<Rightarrow> (error + unit ArangoDeployment) list \<Rightarrow> unit CRClient" where
  "scriptedClient us gs =
     \<lparr>UpdateReply = (\<lambda>k update. if k < length us then us ! k
                                 else Inl (StatusError StatusReasonOther ''unavailable'')),
      GetReply = (\<lambda>k ns name. if k < length gs then gs ! k
                               else Inl (StatusError StatusReasonOther ''unavailable'')),
      updateLog = [], getLog = []\<rparr>"

definition objectV :: "nat \<Rightarrow> DeploymentStatus \<Rightarrow> unit ArangoDeployment" where
  "objectV v st =
     \<lparr>Name = ''db'', Namespace = ''default'', ResourceVersion = v,
      Spec = \<lparr>Mode = (), Agents = \<lparr>StorageClassName = ''fast''\<rparr>,
              DBServers = \<lparr>StorageClassName = ''fast''\<rparr>,
              Single = \<lparr>StorageClassName = ''''\<rparr>\<rparr>,
      Status = st\<rparr>"

definition emptyStatus :: DeploymentStatus where
  "emptyStatus = \<lparr>State = DeploymentStateNone, Reason = '''', Members = [], Rest = 0\<rparr>"

definition failedStatus :: "string \<Rightarrow> DeploymentStatus" where
  "failedStatus r = \<lparr>State = DeploymentStateFailed, Reason = r, Members = [], Rest = 0\<rparr>"

text \<open>The deployment that \<open>New\<close> builds for \<open>objectV 1 emptyStatus\<close> and a scripted store.\<close>

definition deploymentWith :: "unit CRClient \<Rightarrow> unit Deployment" where
  "deploymentWith c =
     \<lparr>apiObject = objectV 1 emptyStatus, status = emptyStatus,
      deps = \<lparr>Log = [], DatabaseCRCli = c\<rparr>, eventCh = [],
      stopCh = False, inspectTrigger = \<lparr>pending = False\<rparr>\<rparr>"

text \<open>Collaborators whose startup step number \<open>k\<close> (from 0) fails with \<open>err\<close>; all else succeeds.\<close>

definition failingAt :: "nat \<Rightarrow> error \<Rightarrow> unit Collaborators" where
  "failingAt k err =
     \<lparr>createServices = (\<lambda>d. (if k = 0 then Some err else None, d)),
      createInitialMembers = (\<lambda>d. (if k = 1 then Some err else None, d)),
      ensurePVCs = (\<lambda>d. (if k = 2 then Some err else None, d)),
      ensurePods = (\<lambda>d. (if k = 3 then Some err else None, d)),
      inspectPods = (\<lambda>d. (None, d)),
      EventsCreate = (\<lambda>evt. None)\<rparr>"

text \<open>Collaborators that never fail and leave the deployment as it is.\<close>

definition noFailure :: "unit Collaborators" where
  "noFailure = failingAt 4 (ErrorString '''')"

definition updatedEvent :: "unit deploymentEvent" where
  "updatedEvent =
     \<lparr>Type = eventArangoDeploymentUpdated, Deployment = Some (objectV 1 emptyStatus),
      Pod = None\<rparr>"

definition podEvent :: "deploymentEventType \<Rightarrow> unit deploymentEvent" where
  "podEvent t = \<lparr>Type = t, Deployment = None, Pod = Some ''pod-1''\<rparr>"

text \<open>
  A store whose first \<open>Update\<close> fails with a version conflict and whose second \<open>Update\<close>
  succeeds; a \<open>Get\<close> would return the current object, of version 2.
\<close>

definition conflictOnce :: "unit CRClient" where
  "conflictOnce =
     scriptedClient
       [Inl (StatusError StatusReasonConflict ''the object has been modified''),
        Inr (objectV 3 (failedStatus ''boom''))]
       [Inr (objectV 2 emptyStatus)]"

text \<open>A store that has lost the object: every request is answered with NotFound.\<close>

definition objectGone :: "unit CRClient" where
  "objectGone =
     \<lparr>UpdateReply = (\<lambda>k update. Inl (StatusError StatusReasonNotFound ''not found'')),
      GetReply = (\<lambda>k ns name. Inl (StatusError StatusReasonNotFound ''not found'')),
      updateLog = [], getLog = []\<rparr>"

text \<open>A deployment whose status has changed since it was last published, for a given store.\<close>

definition runningChanged :: "unit CRClient \<Rightarrow> unit Deployment" where
  "runningChanged c =
     (deploymentWith c)\<lparr>status := emptyStatus\<lparr>State := DeploymentStateRunning\<rparr>\<rparr>"

text \<open>
  Updated events sent every \<open>period\<close> seconds: \<open>k\<close> events, the first at time \<open>start\<close>.
\<close>

fun updatesEvery :: "nat \<Rightarrow> nat \<Rightarrow> nat \<Rightarrow> (nat \<times> unit deploymentEvent) list" where
  "updatesEvery period start 0 = []"
| "updatesEvery period start (Suc k) =
     (start, updatedEvent) # updatesEvery period (start + period) k"

definition timedStart :: "(nat \<times> unit deploymentEvent) list \<Rightarrow> unit timedRun" where
  "timedStart evs =
     \<lparr>now = 0, dep = deploymentWith (scriptedClient [] []), arrivals = evs,
      timerFired = [], ended = None\<rparr>"

text \<open>
  A deployment whose in-memory status agrees with the cached object's status in state, reason
  and members and differs from it only in \<open>Rest\<close> (as when a member slice is nil in one
  value and empty in the other).
\<close>

definition restChanged :: "unit CRClient \<Rightarrow> unit Deployment" where
  "restChanged c = (deploymentWith c)\<lparr>status := emptyStatus\<lparr>Rest := 1\<rparr>\<rparr>"

section \<open>Pod counts\<close>

lemma ForeachServerGroup_total:
  "ForeachServerGroup (\<lambda>grp lst s. (None, f lst s)) gs s
     = (None, fold (\<lambda>gl. f (snd gl)) gs s)"
  by (induction gs arbitrary: s) auto

lemma PodCount_loop_eq:
  "PodCount_loop ms count = count + int (length (filter (\<lambda>m. PodName m \<noteq> '''') ms))"
  by (induction ms arbitrary: count) auto

lemma ReadyPodCount_loop_eq:
  "ReadyPodCount_loop ms count =
     count + int (length (filter (\<lambda>m. PodName m \<noteq> '''' \<and> IsTrue (Conditions m) ConditionTypeReady) ms))"
  by (induction ms arbitrary: count) auto

lemma fold_groups_count:
  "fold (\<lambda>gl c. c + int (length (filter P (snd gl)))) gs count
     = count + int (length (filter P (concat (map snd gs))))"
  by (induction gs arbitrary: count) auto

lemma PodCount_eq:
  "PodCount d = int (length (filter (\<lambda>m. PodName m \<noteq> '''') (allMembers (status d))))"
  by (simp add: PodCount_def GetStatus_def ForeachServerGroup_total PodCount_loop_eq
      fold_groups_count allMembers_def)

lemma ReadyPodCount_eq:
  "ReadyPodCount d =
     int (length (filter (\<lambda>m. PodName m \<noteq> '''' \<and> IsTrue (Conditions m) ConditionTypeReady)
                    (allMembers (status d))))"
  by (simp add: ReadyPodCount_def GetStatus_def ForeachServerGroup_total ReadyPodCount_loop_eq
      fold_groups_count allMembers_def)

lemma length_filter_conj_le:
  "length (filter (\<lambda>x. P x \<and> Q x) xs) \<le> length (filter P xs)"
  by (induction xs) auto

text \<open>
  Claim C9. For every deployment, \<open>PodCount\<close> is the number of member records of its status,
  across all role groups, whose pod name is not empty; \<open>ReadyPodCount\<close> is the number of
  those whose pod name is not empty and whose Ready condition is true; \<open>ReadyPodCount\<close> never
  exceeds \<open>PodCount\<close>; and when the status has three members in one role group that all have
  a pod name and no condition, \<open>PodCount = 3\<close> and \<open>ReadyPodCount = 0\<close>.
\<close>

theorem PodCount_ReadyPodCount_correct:
  "PodCount d = int (length (filter (\<lambda>m. PodName m \<noteq> '''') (allMembers (status d))))
   \<and> ReadyPodCount d =
       int (length (filter (\<lambda>m. PodName m \<noteq> '''' \<and> IsTrue (Conditions m) ConditionTypeReady)
                      (allMembers (status d))))
   \<and> ReadyPodCount d \<le> PodCount d
   \<and> PodCount (d\<lparr>status := \<lparr>State = DeploymentStateRunning, Reason = '''',
        Members = [(''dbserver'',
          [\<lparr>ID = ''m1'', PodName = ''pod-1'', PersistentVolumeClaimName = '''', Conditions = []\<rparr>,
           \<lparr>ID = ''m2'', PodName = ''pod-2'', PersistentVolumeClaimName = '''', Conditions = []\<rparr>,
           \<lparr>ID = ''m3'', PodName = ''pod-3'', PersistentVolumeClaimName = '''', Conditions = []\<rparr>])], Rest = 0\<rparr>\<rparr>) = 3
   \<and> ReadyPodCount (d\<lparr>status := \<lparr>State = DeploymentStateRunning, Reason = '''',
        Members = [(''dbserver'',
          [\<lparr>ID = ''m1'', PodName = ''pod-1'', PersistentVolumeClaimName = '''', Conditions = []\<rparr>,
           \<lparr>ID = ''m2'', PodName = ''pod-2'', PersistentVolumeClaimName = '''', Conditions = []\<rparr>,
           \<lparr>ID = ''m3'', PodName = ''pod-3'', PersistentVolumeClaimName = '''', Conditions = []\<rparr>])], Rest = 0\<rparr>\<rparr>) = 0"
proof -
  have le: "ReadyPodCount d \<le> PodCount d"
    unfolding PodCount_eq ReadyPodCount_eq using length_filter_conj_le by simp
  show ?thesis
    using le by (simp add: PodCount_eq ReadyPodCount_eq allMembers_def IsTrue_def)
qed

section \<open>Storage classes\<close>

text \<open>
  Claim C10. For every deployment (and every definition of the mode predicates),
  \<open>StorageClasses\<close> returns exactly the storage class names of the active role groups
  (agents, db-servers, single servers), in ascending lexicographic order and without
  duplicates, even when several active role groups have the same storage class name: the
  list is strictly ascending. When all three groups are active, with the names \<open>fast\<close>,
  \<open>fast\<close> and the empty name, the result is the empty name followed by \<open>fast\<close>.
\<close>

theorem StorageClasses_sorted_distinct:
  "sorted (StorageClasses api d) \<and> distinct (StorageClasses api d)
   \<and> sorted_wrt (<) (StorageClasses api d)
   \<and> set (StorageClasses api d) =
         (if HasAgents api (Mode (Spec (apiObject d)))
          then {StorageClassName (Agents (Spec (apiObject d)))} else {})
       \<union> (if HasDBServers api (Mode (Spec (apiObject d)))
          then {StorageClassName (DBServers (Spec (apiObject d)))} else {})
       \<union> (if HasSingleServers api (Mode (Spec (apiObject d)))
          then {StorageClassName (Single (Spec (apiObject d)))} else {})
   \<and> StorageClasses
         \<lparr>HasAgents = (\<lambda>m. True), HasDBServers = (\<lambda>m. True), HasSingleServers = (\<lambda>m. True)\<rparr>
         (deploymentWith c) = ['''', ''fast'']"
proof -
  have d: "distinct (StorageClasses api d)"
    by (simp add: StorageClasses_def Let_def)
  have s: "sorted (StorageClasses api d)"
    by (simp add: StorageClasses_def Let_def)
  have names: "set (StorageClasses api d) =
         (if HasAgents api (Mode (Spec (apiObject d)))
          then {StorageClassName (Agents (Spec (apiObject d)))} else {})
       \<union> (if HasDBServers api (Mode (Spec (apiObject d)))
          then {StorageClassName (DBServers (Spec (apiObject d)))} else {})
       \<union> (if HasSingleServers api (Mode (Spec (apiObject d)))
          then {StorageClassName (Single (Spec (apiObject d)))} else {})"
    by (auto simp: StorageClasses_def GetSpec_def GetStorageClassName_def Let_def)
  have ex: "StorageClasses
         \<lparr>HasAgents = (\<lambda>m. True), HasDBServers = (\<lambda>m. True), HasSingleServers = (\<lambda>m. True)\<rparr>
         (deploymentWith c) = ['''', ''fast'']"
    by (simp add: StorageClasses_def GetSpec_def GetStorageClassName_def deploymentWith_def
        objectV_def Let_def)
  from d s names ex show ?thesis
    by (simp add: strict_sorted_iff)
qed

section \<open>The event queue\<close>






section \<open>Handling events\<close>

lemmas event_names = eventArangoDeploymentUpdated_def eventPodAdded_def eventPodUpdated_def
  eventPodDeleted_def

text \<open>
  Claim C4. For every pod event (added, updated or deleted) that the event-serving loop
  consumes, handling the event only arms the inspect trigger: the deployment after the event
  is the deployment before it with the trigger armed, so the in-memory status and the cached
  external object are unchanged, and the loop goes on.
\<close>

theorem pod_event_only_arms_trigger:
  assumes "Type event = eventPodAdded \<or> Type event = eventPodUpdated \<or> Type event = eventPodDeleted"
  shows "run_event n d event = (Continue, d\<lparr>inspectTrigger := Trigger_Trigger (inspectTrigger d)\<rparr>)
     \<and> status (snd (run_event n d event)) = status d
     \<and> apiObject (snd (run_event n d event)) = apiObject d
     \<and> pending (inspectTrigger (snd (run_event n d event)))
     \<and> (eventCh d = event # rest \<longrightarrow>
          (CaseEvent, Continue,
           d\<lparr>eventCh := rest, inspectTrigger := Trigger_Trigger (inspectTrigger d)\<rparr>)
            \<in> set (run_select co n d))"
  using assms
  by (auto simp: run_event_def run_select_def handleArangoDeploymentUpdatedEvent_def
      Trigger_Trigger_def event_names)

theorem pod_event_only_arms_trigger_witness:
  "Type (podEvent eventPodDeleted) = eventPodDeleted
   \<and> run_event 1 ((deploymentWith (scriptedClient [] []))\<lparr>eventCh := [podEvent eventPodDeleted]\<rparr>)
        (podEvent eventPodDeleted)
      = (Continue, (deploymentWith (scriptedClient [] []))
            \<lparr>eventCh := [podEvent eventPodDeleted], inspectTrigger := \<lparr>pending = True\<rparr>\<rparr>)
   \<and> (CaseEvent, Continue,
        (deploymentWith (scriptedClient [] []))\<lparr>eventCh := [], inspectTrigger := \<lparr>pending = True\<rparr>\<rparr>)
       \<in> set (run_select noFailure 1
                 ((deploymentWith (scriptedClient [] []))\<lparr>eventCh := [podEvent eventPodDeleted]\<rparr>))"
proof -
  let ?d = "(deploymentWith (scriptedClient [] []))\<lparr>eventCh := [podEvent eventPodDeleted]\<rparr>"
  have t: "Type (podEvent eventPodDeleted) = eventPodDeleted"
    by (simp add: podEvent_def)
  then have h: "Type (podEvent eventPodDeleted) = eventPodAdded
      \<or> Type (podEvent eventPodDeleted) = eventPodUpdated
      \<or> Type (podEvent eventPodDeleted) = eventPodDeleted"
    by simp
  have q: "eventCh ?d = podEvent eventPodDeleted # []"
    by simp
  have tr: "Trigger_Trigger (inspectTrigger ?d) = \<lparr>pending = True\<rparr>"
    by (simp add: Trigger_Trigger_def)
  from pod_event_only_arms_trigger [OF h, of 1 ?d "[]" noFailure] q
  have "run_event 1 ?d (podEvent eventPodDeleted)
          = (Continue, ?d\<lparr>inspectTrigger := Trigger_Trigger (inspectTrigger ?d)\<rparr>)"
    and "(CaseEvent, Continue,
          ?d\<lparr>eventCh := [], inspectTrigger := Trigger_Trigger (inspectTrigger ?d)\<rparr>)
            \<in> set (run_select noFailure 1 ?d)"
    by blast+
  then show ?thesis
    unfolding tr using t by simp
qed

text \<open>
  Claim C5. For every event whose type is one of the four declared event types, the loop
  handles the event and goes on: the branch for an unknown type is not taken. For every event
  of any other type the loop panics with the message \<open>unknown event type\<close> followed by the
  type, and leaves the deployment as it was.
\<close>

theorem run_event_panics_iff_unknown:
  "(Type event \<in> {eventArangoDeploymentUpdated, eventPodAdded, eventPodUpdated, eventPodDeleted}
      \<longrightarrow> fst (run_event n d event) = Continue)
   \<and> (Type event \<notin> {eventArangoDeploymentUpdated, eventPodAdded, eventPodUpdated, eventPodDeleted}
      \<longrightarrow> run_event n d event = (Panic (''unknown event type'' @ Type event), d))"
  by (auto simp: run_event_def handleArangoDeploymentUpdatedEvent_def)

theorem run_event_panics_iff_unknown_witness:
  "fst (run_event 1 (deploymentWith (scriptedClient [] [])) updatedEvent) = Continue
   \<and> fst (run_event 1 (deploymentWith (scriptedClient [] [])) (podEvent eventPodAdded)) = Continue
   \<and> fst (run_event 1 (deploymentWith (scriptedClient [] [])) (podEvent eventPodUpdated)) = Continue
   \<and> fst (run_event 1 (deploymentWith (scriptedClient [] [])) (podEvent eventPodDeleted)) = Continue
   \<and> run_event 1 (deploymentWith (scriptedClient [] [])) (podEvent ''PodRenamed'')
       = (Panic ''unknown event typePodRenamed'', deploymentWith (scriptedClient [] []))"
  using run_event_panics_iff_unknown [of updatedEvent 1 "deploymentWith (scriptedClient [] [])"]
    run_event_panics_iff_unknown [of "podEvent eventPodAdded" 1 "deploymentWith (scriptedClient [] [])"]
    run_event_panics_iff_unknown [of "podEvent eventPodUpdated" 1 "deploymentWith (scriptedClient [] [])"]
    run_event_panics_iff_unknown [of "podEvent eventPodDeleted" 1 "deploymentWith (scriptedClient [] [])"]
    run_event_panics_iff_unknown [of "podEvent ''PodRenamed''" 1 "deploymentWith (scriptedClient [] [])"]
  by (simp add: updatedEvent_def podEvent_def event_names)

section \<open>Shutdown\<close>

lemma run_event_frame:
  "status (snd (run_event n d ev)) = status d \<and> apiObject (snd (run_event n d ev)) = apiObject d
   \<and> stopCh (snd (run_event n d ev)) = stopCh d \<and> fst (run_event n d ev) \<noteq> Return"
  by (simp add: run_event_def handleArangoDeploymentUpdatedEvent_def)

lemma send_frame:
  "d' \<in> set (send d ev) \<Longrightarrow> status d' = status d \<and> apiObject d' = apiObject d \<and> stopCh d' = stopCh d"
  by (auto simp: send_def logMsg_def Let_def split: if_splits)

lemma send_stopped: "stopCh d \<Longrightarrow> d \<in> set (send d ev) \<and> send d ev \<noteq> []"
  by (simp add: send_def)

text \<open>
  Claim C8. \<open>Delete\<close>, when it returns, leaves the stop channel closed. In every state with
  the stop channel closed, a call of \<open>Update\<close> can return at once (it never blocks), and
  however its \<open>select\<close> is resolved the status and the cached object are unchanged and the
  stop channel stays closed. If the loop still receives an event afterwards (the updated
  event included), handling it leaves the status and the cached object unchanged and never
  starts the failure reporting.
\<close>

theorem update_after_delete_no_effect:
  "(Delete d0 = Inr d1 \<longrightarrow> stopCh d1 \<and> status d1 = status d0)
   \<and> (stopCh d \<longrightarrow>
        Update d obj \<noteq> []
        \<and> (\<forall>d' \<in> set (Update d obj).
              status d' = status d \<and> apiObject d' = apiObject d \<and> stopCh d'
              \<and> (\<forall>ev. status (snd (run_event n d' ev)) = status d
                     \<and> apiObject (snd (run_event n d' ev)) = apiObject d
                     \<and> fst (run_event n d' ev) \<noteq> Return)))"
proof -
  have del: "Delete d0 = Inr d1 \<longrightarrow> stopCh d1 \<and> status d1 = status d0"
    by (auto simp: Delete_def logMsg_def Let_def split: if_splits)
  have upd: "Update d obj \<noteq> []" if "stopCh d"
    using send_stopped [OF that] unfolding Update_def by blast
  have frame: "status d' = status d \<and> apiObject d' = apiObject d \<and> stopCh d'
        \<and> (\<forall>ev. status (snd (run_event n d' ev)) = status d
               \<and> apiObject (snd (run_event n d' ev)) = apiObject d
               \<and> fst (run_event n d' ev) \<noteq> Return)"
    if "stopCh d" and "d' \<in> set (Update d obj)" for d'
    using that send_frame [of d' d] run_event_frame [of n d'] unfolding Update_def by simp
  from del upd frame show ?thesis by blast
qed

theorem update_after_delete_no_effect_witness:
  "Delete (deploymentWith (scriptedClient [] []))
     = Inr ((deploymentWith (scriptedClient [] []))
              \<lparr>deps := \<lparr>Log = [(LevelInfo, ''deployment is deleted by user'')],
                        DatabaseCRCli = scriptedClient [] []\<rparr>,
               stopCh := True\<rparr>)
   \<and> stopCh ((deploymentWith (scriptedClient [] []))
              \<lparr>deps := \<lparr>Log = [(LevelInfo, ''deployment is deleted by user'')],
                        DatabaseCRCli = scriptedClient [] []\<rparr>,
               stopCh := True\<rparr>)
   \<and> Update ((deploymentWith (scriptedClient [] []))
              \<lparr>deps := \<lparr>Log = [(LevelInfo, ''deployment is deleted by user'')],
                        DatabaseCRCli = scriptedClient [] []\<rparr>,
               stopCh := True\<rparr>) (objectV 2 emptyStatus) \<noteq> []
   \<and> list_all (\<lambda>d'. status d' = emptyStatus \<and> apiObject d' = objectV 1 emptyStatus
                  \<and> status (snd (run_event 1 d' updatedEvent)) = emptyStatus)
        (Update ((deploymentWith (scriptedClient [] []))
              \<lparr>deps := \<lparr>Log = [(LevelInfo, ''deployment is deleted by user'')],
                        DatabaseCRCli = scriptedClient [] []\<rparr>,
               stopCh := True\<rparr>) (objectV 2 emptyStatus))"
proof -
  let ?d0 = "deploymentWith (scriptedClient [] [])"
  let ?d1 = "?d0\<lparr>deps := \<lparr>Log = [(LevelInfo, ''deployment is deleted by user'')],
                        DatabaseCRCli = scriptedClient [] []\<rparr>,
               stopCh := True\<rparr>"
  have del: "Delete ?d0 = Inr ?d1"
    by (simp add: Delete_def logMsg_def deploymentWith_def Let_def)
  have st: "stopCh ?d1"
    by simp
  have s1: "status ?d1 = emptyStatus" and a1: "apiObject ?d1 = objectV 1 emptyStatus"
    by (simp_all add: deploymentWith_def)
  from update_after_delete_no_effect [of ?d0 ?d1 ?d1 "objectV 2 emptyStatus" 1] del st
  have "Update ?d1 (objectV 2 emptyStatus) \<noteq> []"
    and "\<forall>d' \<in> set (Update ?d1 (objectV 2 emptyStatus)).
              status d' = status ?d1 \<and> apiObject d' = apiObject ?d1 \<and> stopCh d'
              \<and> (\<forall>ev. status (snd (run_event 1 d' ev)) = status ?d1
                     \<and> apiObject (snd (run_event 1 d' ev)) = apiObject ?d1
                     \<and> fst (run_event 1 d' ev) \<noteq> Return)"
    by blast+
  then have "Update ?d1 (objectV 2 emptyStatus) \<noteq> []"
    and "list_all (\<lambda>d'. status d' = emptyStatus \<and> apiObject d' = objectV 1 emptyStatus
                  \<and> status (snd (run_event 1 d' updatedEvent)) = emptyStatus)
        (Update ?d1 (objectV 2 emptyStatus))"
    unfolding s1 a1 list_all_iff by blast+
  with del st show ?thesis by blast
qed

section \<open>Publishing and failure reporting\<close>

lemma updateCRStatus_status: "status (snd (updateCRStatus d)) = status d"
  by (simp add: updateCRStatus_def Update_request_def setCli_def Let_def split: sum.splits)

lemma reportFailedStatus_op_status:
  "status (snd (reportFailedStatus_op d)) = (status d)\<lparr>State := DeploymentStateFailed\<rparr>"
proof -
  let ?d = "d\<lparr>status := (status d)\<lparr>State := DeploymentStateFailed\<rparr>\<rparr>"
  have "status (snd (updateCRStatus ?d)) = (status d)\<lparr>State := DeploymentStateFailed\<rparr>"
    using updateCRStatus_status [of ?d] by simp
  then show ?thesis
    unfolding reportFailedStatus_op_def Let_def
    by (cases "updateCRStatus ?d")
       (auto simp: Get_request_def setCli_def logMsg_def split: option.splits sum.splits)
qed

lemma Retry_projection:
  assumes step: "\<And>s. f (snd (operation s)) = g (f s)" and idem: "\<And>x. g (g x) = g x"
  shows "f (snd (Retry operation n s)) = g (f s)"
proof (induction n arbitrary: s)
  case 0
  show ?case by (simp add: step)
next
  case (Suc n)
  show ?case
  proof (cases "operation s")
    case (Pair r s')
    then have s': "f s' = g (f s)"
      using step [of s] by simp
    show ?thesis
    proof (cases r)
      case None
      with Pair s' show ?thesis by simp
    next
      case (Some e)
      with Pair have "Retry operation (Suc n) s = Retry operation n s'" by simp
      then show ?thesis using Suc.IH [of s'] s' idem by simp
    qed
  qed
qed

lemma failOnError_status:
  "status (failOnError n err msg d)
     = (status d)\<lparr>State := DeploymentStateFailed, Reason := Error err\<rparr>"
proof -
  let ?g = "\<lambda>st :: DeploymentStatus. st\<lparr>State := DeploymentStateFailed\<rparr>"
  have "status (snd (Retry reportFailedStatus_op n d')) = ?g (status d')" for d' :: "'a Deployment"
    by (rule Retry_projection [where f = status and g = ?g])
       (simp_all add: reportFailedStatus_op_status)
  then show ?thesis
    by (simp add: failOnError_def reportFailedStatus_def logMsg_def Let_def)
qed

text \<open>
  Claim C3. For each of the four startup steps: if the steps before it succeed and the step
  returns an error, then \<open>run\<close> has called the steps up to this one and no later one, has not
  assigned the state \<open>Running\<close>, has returned without reaching the event-serving loop, and
  the status it leaves is the status the failing step left with the message of the error as
  failure reason and \<open>Failed\<close> as state. This holds for every retry bound of the failure
  report and every behaviour of the store.
\<close>

theorem startup_failure_is_fatal:
  "(createServices co d = (Some err, d1) \<longrightarrow>
      (\<exists>d'. run_startup co n d = ([CalledCreateServices], Returned, d')
         \<and> status d' = (status d1)\<lparr>State := DeploymentStateFailed, Reason := Error err\<rparr>))
   \<and> (createServices co d = (None, d1) \<and> createInitialMembers co d1 = (Some err, d2) \<longrightarrow>
      (\<exists>d'. run_startup co n d
               = ([CalledCreateServices, CalledCreateInitialMembers], Returned, d')
         \<and> status d' = (status d2)\<lparr>State := DeploymentStateFailed, Reason := Error err\<rparr>))
   \<and> (createServices co d = (None, d1) \<and> createInitialMembers co d1 = (None, d2)
        \<and> ensurePVCs co d2 = (Some err, d3) \<longrightarrow>
      (\<exists>d'. run_startup co n d
               = ([CalledCreateServices, CalledCreateInitialMembers, CalledEnsurePVCs],
                  Returned, d')
         \<and> status d' = (status d3)\<lparr>State := DeploymentStateFailed, Reason := Error err\<rparr>))
   \<and> (createServices co d = (None, d1) \<and> createInitialMembers co d1 = (None, d2)
        \<and> ensurePVCs co d2 = (None, d3) \<and> ensurePods co d3 = (Some err, d4) \<longrightarrow>
      (\<exists>d'. run_startup co n d
               = ([CalledCreateServices, CalledCreateInitialMembers, CalledEnsurePVCs,
                   CalledEnsurePods], Returned, d')
         \<and> status d' = (status d4)\<lparr>State := DeploymentStateFailed, Reason := Error err\<rparr>))"
  by (simp add: run_startup_def failOnError_status)

theorem startup_failure_is_fatal_witness:
  "createServices (failingAt 0 (ErrorString ''boom'')) (deploymentWith (scriptedClient [] []))
     = (Some (ErrorString ''boom''), deploymentWith (scriptedClient [] []))
   \<and> (\<exists>d'. run_startup (failingAt 0 (ErrorString ''boom'')) 2 (deploymentWith (scriptedClient [] []))
              = ([CalledCreateServices], Returned, d')
          \<and> status d' = failedStatus ''boom'')
   \<and> (\<exists>d'. run_startup (failingAt 1 (ErrorString ''boom'')) 2 (deploymentWith (scriptedClient [] []))
              = ([CalledCreateServices, CalledCreateInitialMembers], Returned, d')
          \<and> status d' = failedStatus ''boom'')
   \<and> (\<exists>d'. run_startup (failingAt 2 (ErrorString ''boom'')) 2 (deploymentWith (scriptedClient [] []))
              = ([CalledCreateServices, CalledCreateInitialMembers, CalledEnsurePVCs], Returned, d')
          \<and> status d' = failedStatus ''boom'')
   \<and> (\<exists>d'. run_startup (failingAt 3 (ErrorString ''boom'')) 2 (deploymentWith (scriptedClient [] []))
              = ([CalledCreateServices, CalledCreateInitialMembers, CalledEnsurePVCs,
                  CalledEnsurePods], Returned, d')
          \<and> status d' = failedStatus ''boom'')"
proof -
  let ?d = "deploymentWith (scriptedClient [] [])"
  let ?e = "ErrorString ''boom''"
  have st: "(status ?d)\<lparr>State := DeploymentStateFailed, Reason := Error ?e\<rparr> = failedStatus ''boom''"
    by (simp add: deploymentWith_def emptyStatus_def failedStatus_def)
  have s0: "createServices (failingAt 0 ?e) ?d = (Some ?e, ?d)"
    by (simp add: failingAt_def)
  have s1: "createServices (failingAt 1 ?e) ?d = (None, ?d)
            \<and> createInitialMembers (failingAt 1 ?e) ?d = (Some ?e, ?d)"
    by (simp add: failingAt_def)
  have s2: "createServices (failingAt 2 ?e) ?d = (None, ?d)
            \<and> createInitialMembers (failingAt 2 ?e) ?d = (None, ?d)
            \<and> ensurePVCs (failingAt 2 ?e) ?d = (Some ?e, ?d)"
    by (simp add: failingAt_def)
  have s3: "createServices (failingAt 3 ?e) ?d = (None, ?d)
            \<and> createInitialMembers (failingAt 3 ?e) ?d = (None, ?d)
            \<and> ensurePVCs (failingAt 3 ?e) ?d = (None, ?d)
            \<and> ensurePods (failingAt 3 ?e) ?d = (Some ?e, ?d)"
    by (simp add: failingAt_def)
  have r0: "\<exists>d'. run_startup (failingAt 0 ?e) 2 ?d = ([CalledCreateServices], Returned, d')
          \<and> status d' = failedStatus ''boom''"
    using startup_failure_is_fatal [of "failingAt 0 ?e" ?d ?e ?d 2] s0
    unfolding st by blast
  have r1: "\<exists>d'. run_startup (failingAt 1 ?e) 2 ?d
              = ([CalledCreateServices, CalledCreateInitialMembers], Returned, d')
          \<and> status d' = failedStatus ''boom''"
    using startup_failure_is_fatal [of "failingAt 1 ?e" ?d ?e ?d 2 ?d] s1
    unfolding st by blast
  have r2: "\<exists>d'. run_startup (failingAt 2 ?e) 2 ?d
              = ([CalledCreateServices, CalledCreateInitialMembers, CalledEnsurePVCs], Returned, d')
          \<and> status d' = failedStatus ''boom''"
    using startup_failure_is_fatal [of "failingAt 2 ?e" ?d ?e ?d 2 ?d ?d] s2
    unfolding st by blast
  have r3: "\<exists>d'. run_startup (failingAt 3 ?e) 2 ?d
              = ([CalledCreateServices, CalledCreateInitialMembers, CalledEnsurePVCs,
                  CalledEnsurePods], Returned, d')
          \<and> status d' = failedStatus ''boom''"
    using startup_failure_is_fatal [of "failingAt 3 ?e" ?d ?e ?d 2 ?d ?d ?d] s3
    unfolding st by blast
  from s0 r0 r1 r2 r3 show ?thesis by blast
qed

lemma Errorf_v_unclassified:
  "\<not> IsNotFound (maskAny (Errorf_v prefix err)) \<and> \<not> IsConflict (maskAny (Errorf_v prefix err))"
  by (simp add: IsNotFound_def IsConflict_def maskAny_def Errorf_v_def)

lemma updateCRStatus_error_unclassified:
  "fst (updateCRStatus d) = Some e \<Longrightarrow> \<not> IsNotFound e \<and> \<not> IsConflict e"
  using Errorf_v_unclassified
  by (auto simp: updateCRStatus_def Update_request_def Let_def split: if_splits sum.splits)

lemma updateCRStatus_getLog:
  "getLog (DatabaseCRCli (deps (snd (updateCRStatus d)))) = getLog (DatabaseCRCli (deps d))"
  by (simp add: updateCRStatus_def Update_request_def setCli_def Let_def split: sum.splits)

text \<open>
  Whatever the store answers, one attempt of the failure report sends no \<open>Get\<close> request: the
  error that \<open>updateCRStatus\<close> returns is never classified as a conflict.
\<close>

lemma reportFailedStatus_op_never_refetches:
  "getLog (DatabaseCRCli (deps (snd (reportFailedStatus_op d)))) = getLog (DatabaseCRCli (deps d))"
proof -
  let ?d = "d\<lparr>status := (status d)\<lparr>State := DeploymentStateFailed\<rparr>\<rparr>"
  obtain r d' where u: "updateCRStatus ?d = (r, d')"
    by (cases "updateCRStatus ?d")
  have g: "getLog (DatabaseCRCli (deps d')) = getLog (DatabaseCRCli (deps d))"
    using updateCRStatus_getLog [of ?d] u by simp
  show ?thesis
  proof (cases r)
    case None
    with u g show ?thesis by (simp add: reportFailedStatus_op_def Let_def)
  next
    case (Some e)
    with u have "\<not> IsNotFound e \<and> \<not> IsConflict e"
      using updateCRStatus_error_unclassified [of ?d e] by simp
    with u g Some show ?thesis
      by (simp add: reportFailedStatus_op_def Let_def logMsg_def)
  qed
qed

text \<open>
  Claim C1, evaluated on the code. The startup has failed with the error \<open>boom\<close>, and the
  store answers the first \<open>Update\<close> with a version conflict and the second with success. The
  store's error is a conflict, but the error that the failure report tests is the new error
  that \<open>updateCRStatus\<close> made of its message, which is no conflict: the first attempt ends in
  the branch \<open>fail to update\<close> with a plain failure, no \<open>Get\<close> request is ever sent, the
  cached object is not replaced before the second attempt (which sends the old version 1
  again), and the report ends with two \<open>Update\<close> requests and not one refetch.
\<close>

theorem conflict_once_is_not_refetched:
  "IsConflict (StatusError StatusReasonConflict ''the object has been modified'')
   \<and> reportFailedStatus_op
        ((deploymentWith conflictOnce)\<lparr>status := emptyStatus\<lparr>Reason := ''boom''\<rparr>\<rparr>)
      = (Some (Masked (Masked (ErrorString
            ''failed to update ArangoDeployment status: the object has been modified''))),
         (deploymentWith conflictOnce)
           \<lparr>status := failedStatus ''boom'',
            deps := \<lparr>Log = [(LevelWarn, ''retry report status: fail to update'')],
                      DatabaseCRCli = conflictOnce
                        \<lparr>updateLog := [objectV 1 (failedStatus ''boom'')]\<rparr>\<rparr>\<rparr>)
   \<and> getLog (DatabaseCRCli (deps
        (failOnError 5 (ErrorString ''boom'') ''Failed to create services''
           (deploymentWith conflictOnce)))) = []
   \<and> updateLog (DatabaseCRCli (deps
        (failOnError 5 (ErrorString ''boom'') ''Failed to create services''
           (deploymentWith conflictOnce))))
      = [objectV 1 (failedStatus ''boom''), objectV 1 (failedStatus ''boom'')]
   \<and> apiObject (failOnError 5 (ErrorString ''boom'') ''Failed to create services''
        (deploymentWith conflictOnce)) = objectV 3 (failedStatus ''boom'')"
  by (simp add: IsConflict_def IsNotFound_def failOnError_def reportFailedStatus_def
      reportFailedStatus_op_def updateCRStatus_def DeepEqual_def Update_request_def
      Get_request_def
      setCli_def logMsg_def maskAny_def Errorf_v_def conflictOnce_def scriptedClient_def
      deploymentWith_def objectV_def emptyStatus_def failedStatus_def Let_def
      numeral_nat)

text \<open>
  Claim C2 fails on the ordinary status update: the status has changed, the store answers
  the \<open>Update\<close> request with NotFound, and \<open>updateCRStatus\<close> returns an error, not success.
\<close>

theorem updateCRStatus_NotFound_is_error:
  "IsNotFound (StatusError StatusReasonNotFound ''not found'')
   \<and> UpdateReply objectGone 0 (objectV 1 (emptyStatus\<lparr>State := DeploymentStateRunning\<rparr>))
       = Inl (StatusError StatusReasonNotFound ''not found'')
   \<and> fst (updateCRStatus (runningChanged objectGone))
       = Some (Masked (ErrorString ''failed to update ArangoDeployment status: not found''))"
  by (simp add: IsNotFound_def updateCRStatus_def DeepEqual_def Update_request_def setCli_def
      maskAny_def Errorf_v_def objectGone_def runningChanged_def deploymentWith_def objectV_def
      emptyStatus_def Let_def)

lemma run_startup_all_steps_succeed:
  assumes "createServices co d = (None, d1)" and "createInitialMembers co d1 = (None, d2)"
    and "ensurePVCs co d2 = (None, d3)" and "ensurePods co d3 = (None, d4)"
  shows "run_startup co n d =
     (let d5 = d4\<lparr>status := (status d4)\<lparr>State := DeploymentStateRunning\<rparr>\<rparr>;
          (err, d6) = updateCRStatus d5;
          d7 = (case err of
                  Some e \<Rightarrow> logMsg LevelWarn ''update initial CR status failed'' d6
                | None \<Rightarrow> d6)
      in ([CalledCreateServices, CalledCreateInitialMembers, CalledEnsurePVCs,
           CalledEnsurePods, SetStateRunning], Serving,
          logMsg LevelInfo ''start running...'' d7))"
  using assms by (simp add: run_startup_def Let_def)

lemma updateCRStatus_store_error:
  assumes "\<not> DeepEqual (Status (apiObject d)) (status d)"
    and "UpdateReply (DatabaseCRCli (deps d)) (length (updateLog (DatabaseCRCli (deps d))))
           ((apiObject d)\<lparr>Status := status d\<rparr>) = Inl err"
  shows "updateCRStatus d =
     (Some (maskAny (Errorf_v ''failed to update ArangoDeployment status: '' err)),
      setCli ((DatabaseCRCli (deps d))
                \<lparr>updateLog := updateLog (DatabaseCRCli (deps d))
                                 @ [(apiObject d)\<lparr>Status := status d\<rparr>]\<rparr>) d)"
  using assms by (simp add: updateCRStatus_def Update_request_def Let_def)

text \<open>
  Claim C2 as amended. \<open>updateCRStatus\<close> returns success in exactly two cases: the in-memory
  status and the status of the cached object are deeply equal, and then no request is sent
  and nothing changes; or the store accepts the update, and then the object it returns
  becomes the cached object. When the store answers with an error, NotFound included,
  \<open>updateCRStatus\<close> returns an error that carries the store's message after the text
  \<open>failed to update ArangoDeployment status: \<close>, and keeps the cached object and the status.
  \<open>run\<close> only logs this error as a warning: when the four startup steps have succeeded and
  the store answers the first status update with an error, \<open>run\<close> has called the four
  steps and assigned \<open>Running\<close>, logs \<open>update initial CR status failed\<close> and
  \<open>start running...\<close>, keeps the state \<open>Running\<close> in memory and the cached object, and
  reaches the event-serving loop.
\<close>

theorem updateCRStatus_result:
  "(DeepEqual (Status (apiObject d)) (status d) \<longrightarrow> updateCRStatus d = (None, d))
   \<and> (\<not> DeepEqual (Status (apiObject d)) (status d)
        \<and> UpdateReply (DatabaseCRCli (deps d)) (length (updateLog (DatabaseCRCli (deps d))))
              ((apiObject d)\<lparr>Status := status d\<rparr>) = Inl err
       \<longrightarrow> fst (updateCRStatus d)
             = Some (maskAny (Errorf_v ''failed to update ArangoDeployment status: '' err))
           \<and> map_option Error (fst (updateCRStatus d))
             = Some (''failed to update ArangoDeployment status: '' @ Error err)
           \<and> updateLog (DatabaseCRCli (deps (snd (updateCRStatus d))))
             = updateLog (DatabaseCRCli (deps d)) @ [(apiObject d)\<lparr>Status := status d\<rparr>]
           \<and> apiObject (snd (updateCRStatus d)) = apiObject d
           \<and> status (snd (updateCRStatus d)) = status d)
   \<and> (\<not> DeepEqual (Status (apiObject d)) (status d)
        \<and> UpdateReply (DatabaseCRCli (deps d)) (length (updateLog (DatabaseCRCli (deps d))))
              ((apiObject d)\<lparr>Status := status d\<rparr>) = Inr newAPIObject
       \<longrightarrow> fst (updateCRStatus d) = None
           \<and> apiObject (snd (updateCRStatus d)) = newAPIObject
           \<and> status (snd (updateCRStatus d)) = status d)
   \<and> (createServices co d = (None, d1) \<and> createInitialMembers co d1 = (None, d2)
        \<and> ensurePVCs co d2 = (None, d3) \<and> ensurePods co d3 = (None, d4)
        \<and> \<not> DeepEqual (Status (apiObject d4)) ((status d4)\<lparr>State := DeploymentStateRunning\<rparr>)
        \<and> UpdateReply (DatabaseCRCli (deps d4)) (length (updateLog (DatabaseCRCli (deps d4))))
              ((apiObject d4)\<lparr>Status := (status d4)\<lparr>State := DeploymentStateRunning\<rparr>\<rparr>)
            = Inl err
       \<longrightarrow> (\<exists>d'. run_startup co n d
                  = ([CalledCreateServices, CalledCreateInitialMembers, CalledEnsurePVCs,
                      CalledEnsurePods, SetStateRunning], Serving, d')
              \<and> Log (deps d') = Log (deps d4)
                   @ [(LevelWarn, ''update initial CR status failed''),
                      (LevelInfo, ''start running...'')]
              \<and> status d' = (status d4)\<lparr>State := DeploymentStateRunning\<rparr>
              \<and> apiObject d' = apiObject d4))"
proof -
  have same: "DeepEqual (Status (apiObject d)) (status d) \<longrightarrow> updateCRStatus d = (None, d)"
    by (simp add: updateCRStatus_def)
  have failed: "\<not> DeepEqual (Status (apiObject d)) (status d)
        \<and> UpdateReply (DatabaseCRCli (deps d)) (length (updateLog (DatabaseCRCli (deps d))))
              ((apiObject d)\<lparr>Status := status d\<rparr>) = Inl err
       \<longrightarrow> fst (updateCRStatus d)
             = Some (maskAny (Errorf_v ''failed to update ArangoDeployment status: '' err))
           \<and> map_option Error (fst (updateCRStatus d))
             = Some (''failed to update ArangoDeployment status: '' @ Error err)
           \<and> updateLog (DatabaseCRCli (deps (snd (updateCRStatus d))))
             = updateLog (DatabaseCRCli (deps d)) @ [(apiObject d)\<lparr>Status := status d\<rparr>]
           \<and> apiObject (snd (updateCRStatus d)) = apiObject d
           \<and> status (snd (updateCRStatus d)) = status d"
    by (simp add: updateCRStatus_store_error setCli_def maskAny_def Errorf_v_def)
  have accepted: "\<not> DeepEqual (Status (apiObject d)) (status d)
        \<and> UpdateReply (DatabaseCRCli (deps d)) (length (updateLog (DatabaseCRCli (deps d))))
              ((apiObject d)\<lparr>Status := status d\<rparr>) = Inr newAPIObject
       \<longrightarrow> fst (updateCRStatus d) = None
           \<and> apiObject (snd (updateCRStatus d)) = newAPIObject
           \<and> status (snd (updateCRStatus d)) = status d"
    by (simp add: updateCRStatus_def Update_request_def setCli_def Let_def)
  have run: "\<exists>d'. run_startup co n d
                  = ([CalledCreateServices, CalledCreateInitialMembers, CalledEnsurePVCs,
                      CalledEnsurePods, SetStateRunning], Serving, d')
              \<and> Log (deps d') = Log (deps d4)
                   @ [(LevelWarn, ''update initial CR status failed''),
                      (LevelInfo, ''start running...'')]
              \<and> status d' = (status d4)\<lparr>State := DeploymentStateRunning\<rparr>
              \<and> apiObject d' = apiObject d4"
    if steps: "createServices co d = (None, d1)" "createInitialMembers co d1 = (None, d2)"
         "ensurePVCs co d2 = (None, d3)" "ensurePods co d3 = (None, d4)"
      and differ: "\<not> DeepEqual (Status (apiObject d4))
                      ((status d4)\<lparr>State := DeploymentStateRunning\<rparr>)"
      and reply: "UpdateReply (DatabaseCRCli (deps d4))
              (length (updateLog (DatabaseCRCli (deps d4))))
              ((apiObject d4)\<lparr>Status := (status d4)\<lparr>State := DeploymentStateRunning\<rparr>\<rparr>)
            = Inl err"
  proof -
    let ?d5 = "d4\<lparr>status := (status d4)\<lparr>State := DeploymentStateRunning\<rparr>\<rparr>"
    have u: "updateCRStatus ?d5 =
       (Some (maskAny (Errorf_v ''failed to update ArangoDeployment status: '' err)),
        setCli ((DatabaseCRCli (deps ?d5))
                  \<lparr>updateLog := updateLog (DatabaseCRCli (deps ?d5))
                                   @ [(apiObject ?d5)\<lparr>Status := status ?d5\<rparr>]\<rparr>) ?d5)"
      using differ reply by (intro updateCRStatus_store_error) simp_all
    show ?thesis
      unfolding run_startup_all_steps_succeed [OF steps]
      by (simp add: u Let_def logMsg_def setCli_def)
  qed
  from same failed accepted run show ?thesis by blast
qed

theorem updateCRStatus_result_witness:
  "updateCRStatus (deploymentWith objectGone) = (None, deploymentWith objectGone)
   \<and> fst (updateCRStatus (runningChanged objectGone))
       = Some (maskAny (Errorf_v ''failed to update ArangoDeployment status: ''
                          (StatusError StatusReasonNotFound ''not found'')))
   \<and> apiObject (snd (updateCRStatus (runningChanged objectGone))) = objectV 1 emptyStatus
   \<and> \<not> DeepEqual emptyStatus (emptyStatus\<lparr>Rest := 1\<rparr>)
   \<and> fst (updateCRStatus (restChanged objectGone))
       = Some (maskAny (Errorf_v ''failed to update ArangoDeployment status: ''
                          (StatusError StatusReasonNotFound ''not found'')))
   \<and> updateLog (DatabaseCRCli (deps (snd (updateCRStatus (restChanged objectGone)))))
       = [objectV 1 (emptyStatus\<lparr>Rest := 1\<rparr>)]
   \<and> fst (updateCRStatus (runningChanged
              (scriptedClient [Inr (objectV 2 (emptyStatus\<lparr>State := DeploymentStateRunning\<rparr>))] [])))
       = None
   \<and> apiObject (snd (updateCRStatus (runningChanged
              (scriptedClient [Inr (objectV 2 (emptyStatus\<lparr>State := DeploymentStateRunning\<rparr>))] []))))
       = objectV 2 (emptyStatus\<lparr>State := DeploymentStateRunning\<rparr>)
   \<and> (\<exists>d'. run_startup noFailure 2 (deploymentWith objectGone)
              = ([CalledCreateServices, CalledCreateInitialMembers, CalledEnsurePVCs,
                  CalledEnsurePods, SetStateRunning], Serving, d')
          \<and> Log (deps d') = [(LevelWarn, ''update initial CR status failed''),
                              (LevelInfo, ''start running...'')]
          \<and> status d' = emptyStatus\<lparr>State := DeploymentStateRunning\<rparr>
          \<and> apiObject d' = objectV 1 emptyStatus)"
proof -
  let ?ok = "scriptedClient [Inr (objectV 2 (emptyStatus\<lparr>State := DeploymentStateRunning\<rparr>))] []"
  let ?nf = "StatusError StatusReasonNotFound ''not found''"
  let ?d = "deploymentWith objectGone"
  have same: "DeepEqual (Status (apiObject ?d)) (status ?d)"
    by (simp add: DeepEqual_def deploymentWith_def objectV_def)
  have diff: "\<not> DeepEqual (Status (apiObject (runningChanged c))) (status (runningChanged c))" for c
    by (simp add: DeepEqual_def runningChanged_def deploymentWith_def objectV_def emptyStatus_def)
  have rdiff: "\<not> DeepEqual (Status (apiObject (restChanged c))) (status (restChanged c))" for c
    by (simp add: DeepEqual_def restChanged_def deploymentWith_def objectV_def emptyStatus_def)
  have ediff: "\<not> DeepEqual emptyStatus (emptyStatus\<lparr>Rest := 1\<rparr>)"
    by (simp add: DeepEqual_def emptyStatus_def)
  have gone: "UpdateReply (DatabaseCRCli (deps (runningChanged objectGone)))
                (length (updateLog (DatabaseCRCli (deps (runningChanged objectGone)))))
                ((apiObject (runningChanged objectGone))\<lparr>Status := status (runningChanged objectGone)\<rparr>)
              = Inl ?nf"
    by (simp add: runningChanged_def deploymentWith_def objectGone_def)
  have rgone: "UpdateReply (DatabaseCRCli (deps (restChanged objectGone)))
                (length (updateLog (DatabaseCRCli (deps (restChanged objectGone)))))
                ((apiObject (restChanged objectGone))\<lparr>Status := status (restChanged objectGone)\<rparr>)
              = Inl ?nf"
    by (simp add: restChanged_def deploymentWith_def objectGone_def)
  have ok: "UpdateReply (DatabaseCRCli (deps (runningChanged ?ok)))
                (length (updateLog (DatabaseCRCli (deps (runningChanged ?ok)))))
                ((apiObject (runningChanged ?ok))\<lparr>Status := status (runningChanged ?ok)\<rparr>)
              = Inr (objectV 2 (emptyStatus\<lparr>State := DeploymentStateRunning\<rparr>))"
    by (simp add: runningChanged_def deploymentWith_def scriptedClient_def)
  have a0: "apiObject (runningChanged objectGone) = objectV 1 emptyStatus"
    by (simp add: runningChanged_def deploymentWith_def)
  have rl: "updateLog (DatabaseCRCli (deps (restChanged objectGone)))
              @ [(apiObject (restChanged objectGone))\<lparr>Status := status (restChanged objectGone)\<rparr>]
            = [objectV 1 (emptyStatus\<lparr>Rest := 1\<rparr>)]"
    by (simp add: restChanged_def deploymentWith_def objectGone_def objectV_def)
  have steps: "createServices noFailure ?d = (None, ?d) \<and> createInitialMembers noFailure ?d = (None, ?d)
        \<and> ensurePVCs noFailure ?d = (None, ?d) \<and> ensurePods noFailure ?d = (None, ?d)"
    by (simp add: noFailure_def failingAt_def)
  have sdiff: "\<not> DeepEqual (Status (apiObject ?d)) ((status ?d)\<lparr>State := DeploymentStateRunning\<rparr>)"
    by (simp add: DeepEqual_def deploymentWith_def objectV_def emptyStatus_def)
  have sgone: "UpdateReply (DatabaseCRCli (deps ?d)) (length (updateLog (DatabaseCRCli (deps ?d))))
              ((apiObject ?d)\<lparr>Status := (status ?d)\<lparr>State := DeploymentStateRunning\<rparr>\<rparr>)
            = Inl ?nf"
    by (simp add: deploymentWith_def objectGone_def)
  have sl: "Log (deps ?d) = []" and ss: "status ?d = emptyStatus"
    and sa: "apiObject ?d = objectV 1 emptyStatus"
    by (simp_all add: deploymentWith_def)
  from updateCRStatus_result [where d = ?d] same
  have r1: "updateCRStatus ?d = (None, ?d)"
    by blast
  from updateCRStatus_result [where d = "runningChanged objectGone" and err = ?nf]
       diff [of objectGone] gone
  have r2: "fst (updateCRStatus (runningChanged objectGone))
       = Some (maskAny (Errorf_v ''failed to update ArangoDeployment status: '' ?nf))"
    and r3: "apiObject (snd (updateCRStatus (runningChanged objectGone)))
       = apiObject (runningChanged objectGone)"
    by blast+
  from updateCRStatus_result [where d = "restChanged objectGone" and err = ?nf]
       rdiff [of objectGone] rgone
  have r6: "fst (updateCRStatus (restChanged objectGone))
       = Some (maskAny (Errorf_v ''failed to update ArangoDeployment status: '' ?nf))"
    and r7: "updateLog (DatabaseCRCli (deps (snd (updateCRStatus (restChanged objectGone)))))
       = updateLog (DatabaseCRCli (deps (restChanged objectGone)))
           @ [(apiObject (restChanged objectGone))\<lparr>Status := status (restChanged objectGone)\<rparr>]"
    by blast+
  from updateCRStatus_result
         [where d = "runningChanged ?ok"
            and newAPIObject = "objectV 2 (emptyStatus\<lparr>State := DeploymentStateRunning\<rparr>)"]
       diff [of ?ok] ok
  have r4: "fst (updateCRStatus (runningChanged ?ok)) = None"
    and r5: "apiObject (snd (updateCRStatus (runningChanged ?ok)))
       = objectV 2 (emptyStatus\<lparr>State := DeploymentStateRunning\<rparr>)"
    by blast+
  from updateCRStatus_result
         [where d = ?d and err = ?nf and co = noFailure and ?d1.0 = ?d and ?d2.0 = ?d
            and ?d3.0 = ?d and ?d4.0 = ?d and n = 2]
       steps sdiff sgone
  have r8: "\<exists>d'. run_startup noFailure 2 ?d
              = ([CalledCreateServices, CalledCreateInitialMembers, CalledEnsurePVCs,
                  CalledEnsurePods, SetStateRunning], Serving, d')
          \<and> Log (deps d') = Log (deps ?d) @ [(LevelWarn, ''update initial CR status failed''),
                              (LevelInfo, ''start running...'')]
          \<and> status d' = (status ?d)\<lparr>State := DeploymentStateRunning\<rparr>
          \<and> apiObject d' = apiObject ?d"
    by blast
  from r1 r2 r3 r4 r5 r6 r7 r8 ediff show ?thesis
    unfolding a0 rl sl ss sa by simp
qed

section \<open>The inspection timer\<close>

lemma run_timed_step_update_arrives:
  "run_timed_step co n
     \<lparr>now = t, dep = deploymentWith (scriptedClient [] []),
      arrivals = (t + 30, updatedEvent) # rest, timerFired = [], ended = None\<rparr>
   = [\<lparr>now = t + 30, dep = deploymentWith (scriptedClient [] []),
       arrivals = rest, timerFired = [], ended = None\<rparr>]"
  by (simp add: run_timed_step_def run_select_def run_event_def
      handleArangoDeploymentUpdatedEvent_def afterCase_def updatedEvent_def
      inspectionInterval_def deploymentWith_def Let_def)

lemma run_timed_updates_every_30:
  "run_timed co n k
     \<lparr>now = t, dep = deploymentWith (scriptedClient [] []),
      arrivals = updatesEvery 30 (t + 30) k, timerFired = [], ended = None\<rparr>
   = [\<lparr>now = t + 30 * k, dep = deploymentWith (scriptedClient [] []),
       arrivals = [], timerFired = [], ended = None\<rparr>]"
proof (induction k arbitrary: t)
  case 0
  show ?case by simp
next
  case (Suc k)
  have "run_timed co n (Suc k)
          \<lparr>now = t, dep = deploymentWith (scriptedClient [] []),
           arrivals = updatesEvery 30 (t + 30) (Suc k), timerFired = [], ended = None\<rparr>
        = run_timed co n k
          \<lparr>now = t + 30, dep = deploymentWith (scriptedClient [] []),
           arrivals = updatesEvery 30 (t + 30 + 30) k, timerFired = [], ended = None\<rparr>"
    by (simp add: run_timed_step_update_arrives)
  also have "\<dots> = [\<lparr>now = t + 30 + 30 * k, dep = deploymentWith (scriptedClient [] []),
       arrivals = [], timerFired = [], ended = None\<rparr>]"
    by (rule Suc.IH)
  finally show ?case by (simp add: add.assoc)
qed

text \<open>
  Claim C7, evaluated on the code. The inspection interval is 60 seconds. With no event at
  all, the timer case runs at 60, 120 and 180 seconds. With an updated event sent every 30
  seconds, every iteration of the loop ends by receiving an event before its own timer is
  due, and the next iteration starts a new timer: for every number \<open>k\<close> of events, after
  \<open>30 * k\<close> seconds the loop has run \<open>k\<close> iterations, the timer case has never run, and the
  trigger has never been armed.
\<close>

theorem timer_restarts_with_every_iteration:
  "run_timed co n k (timedStart (updatesEvery 30 30 k))
     = [\<lparr>now = 30 * k, dep = deploymentWith (scriptedClient [] []), arrivals = [],
         timerFired = [], ended = None\<rparr>]
   \<and> \<not> pending (inspectTrigger (deploymentWith (scriptedClient [] [])))
   \<and> inspectionInterval = 60
   \<and> map timerFired (run_timed noFailure n 6 (timedStart []))
       = [[60, 120, 180]]"
proof -
  have a: "run_timed co n k (timedStart (updatesEvery 30 30 k))
     = [\<lparr>now = 30 * k, dep = deploymentWith (scriptedClient [] []), arrivals = [],
         timerFired = [], ended = None\<rparr>]"
    using run_timed_updates_every_30 [of co n k 0] by (simp add: timedStart_def)
  have b: "map timerFired (run_timed noFailure n 6 (timedStart []))
       = [[60, 120, 180]]"
    by (simp add: numeral_nat run_timed_step_def run_select_def run_inspect_def run_timer_def
        Trigger_Trigger_def Trigger_receive_def noFailure_def failingAt_def afterCase_def
        timedStart_def
        inspectionInterval_def deploymentWith_def Let_def)
  from a b show ?thesis
    by (simp add: deploymentWith_def inspectionInterval_def)
qed

end
